theory Spec2Isabelle
  imports Main
begin

section \<open>Python values used by the model\<close>

text \<open>
  The exceptions the modelled code can raise: \<open>IndexError\<close> from list indexing,
  \<open>ValueError\<close> from \<open>list.remove\<close> and \<open>list.index\<close>, \<open>TypeError\<close> from \<open>len(None)\<close>.
\<close>

datatype error = IndexError | ValueError | TypeError

text \<open>
  The JSON-representable values that \<open>flatten\<close> builds. A Python \<open>dict\<close> keeps its keys
  in insertion order, so it is an association list with unique keys.
\<close>

datatype pyval =
    VInt int
  | VStr string
  | VBool bool
  | VList "pyval list"
  | VDict "(string \<times> pyval) list"

type_synonym pydict = "(string \<times> pyval) list"

text \<open>\<open>d[k] = v\<close>: an existing key keeps its position and takes the new value, a new key goes last.\<close>

fun dict_set :: "string \<Rightarrow> pyval \<Rightarrow> pydict \<Rightarrow> pydict" where
  "dict_set k v [] = [(k, v)]"
| "dict_set k v ((k', v') # d) = (if k' = k then (k, v) # d else (k', v') # dict_set k v d)"

text \<open>
  A dict display \<open>{k1: v1, ..., **d, ...}\<close> inserts its items from left to right into an
  empty dict; \<open>dict_display\<close> takes the items in that order (an unpacked \<open>**d\<close> contributes
  the items of \<open>d\<close>).
\<close>

definition dict_display :: "pydict \<Rightarrow> pydict" where
  "dict_display items = fold (\<lambda>(k, v) d. dict_set k v d) items []"

text \<open>Two dicts are equal in Python when they map the same keys to equal values, in any order.\<close>

definition same_mapping :: "pydict \<Rightarrow> pydict \<Rightarrow> bool" where
  "same_mapping d e = (distinct (map fst d) \<and> distinct (map fst e) \<and>
     set d = set e)"

text \<open>\<open>xs[i]\<close> on a list: a negative index counts from the end.\<close>

definition list_getitem :: "'a list \<Rightarrow> int \<Rightarrow> error + 'a" where
  "list_getitem xs i =
     (let n = int (length xs); j = (if i < 0 then i + n else i)
      in if j < 0 \<or> n \<le> j then Inl IndexError else Inr (xs ! nat j))"

text \<open>\<open>xs.remove(v)\<close>: deletes the first item equal to \<open>v\<close>, raises \<open>ValueError\<close> when there is none.\<close>

fun list_remove :: "'a list \<Rightarrow> 'a \<Rightarrow> error + 'a list" where
  "list_remove [] v = Inl ValueError"
| "list_remove (y # ys) v =
     (if y = v then Inr ys
      else (case list_remove ys v of Inl e \<Rightarrow> Inl e | Inr zs \<Rightarrow> Inr (y # zs)))"

text \<open>\<open>xs.index(v)\<close>: the position of the first item equal to \<open>v\<close>, \<open>ValueError\<close> when there is none.\<close>

fun list_index :: "'a list \<Rightarrow> 'a \<Rightarrow> error + nat" where
  "list_index [] v = Inl ValueError"
| "list_index (y # ys) v =
     (if y = v then Inr 0
      else (case list_index ys v of Inl e \<Rightarrow> Inl e | Inr i \<Rightarrow> Inr (Suc i)))"

text \<open>
  \<open>xs.sort(key=f, reverse=True)\<close>: descending by key, and items with equal keys keep their
  original order. CPython reverses the list, sorts it stably in ascending order and reverses
  the result.
\<close>

definition sort_reverse :: "('a \<Rightarrow> 'k::linorder) \<Rightarrow> 'a list \<Rightarrow> 'a list" where
  "sort_reverse f xs = rev (sort_key f (rev xs))"

section \<open>Color and Location\<close>

datatype color = Color int int int

datatype location = Location int int

definition hexchar :: "nat \<Rightarrow> char" where
  "hexchar d = ''0123456789abcdef'' ! d"

fun hexdigits :: "nat \<Rightarrow> string" where
  "hexdigits n = (if n < 16 then [hexchar n] else hexdigits (n div 16) @ [hexchar (n mod 16)])"

declare hexdigits.simps [simp del]

text \<open>
  The format specification \<open>02x\<close>: lowercase hexadecimal, padded with zeros to at least two
  characters; a negative number has its sign first, which already fills the width.
\<close>

definition format_02x :: "int \<Rightarrow> string" where
  "format_02x n =
     (if n < 0 then CHR ''-'' # hexdigits (nat (- n))
      else replicate (2 - length (hexdigits (nat n))) CHR ''0'' @ hexdigits (nat n))"

fun hex :: "color \<Rightarrow> string" where
  "hex (Color r g b) = CHR ''#'' # format_02x r @ format_02x g @ format_02x b"

fun Color_flatten :: "color \<Rightarrow> pydict" where
  "Color_flatten c = dict_display [(''color'', VStr (hex c))]"

fun Location_flatten :: "location \<Rightarrow> pydict" where
  "Location_flatten (Location x y) = dict_display [(''x'', VInt x), (''y'', VInt y)]"

section \<open>ContentPiece and its subclasses\<close>

text \<open>
  Python does not check the annotations of \<open>ContentPiece.__init__\<close>: the attributes
  \<open>color\<close> and \<open>location\<close> hold whatever objects the subclass passes, and
  \<open>self.color.flatten()\<close> dispatches on the object found there.
\<close>

datatype pyobj = ColorObj color | LocationObj location

fun obj_flatten :: "pyobj \<Rightarrow> pydict" where
  "obj_flatten (ColorObj c) = Color_flatten c"
| "obj_flatten (LocationObj l) = Location_flatten l"

text \<open>The base object: its attributes \<open>color\<close> and \<open>location\<close>, in this order.\<close>

datatype ContentPiece = ContentPiece pyobj pyobj

text \<open>\<open>ContentPiece.__init__(self, location=None, color=None)\<close>; \<open>None\<close> is the absent argument.\<close>

definition ContentPiece_init :: "pyobj option \<Rightarrow> pyobj option \<Rightarrow> ContentPiece" where
  "ContentPiece_init location color =
     ContentPiece
       (case color of None \<Rightarrow> ColorObj (Color 255 255 255) | Some c \<Rightarrow> c)
       (case location of None \<Rightarrow> LocationObj (Location 0 0) | Some l \<Rightarrow> l)"

fun ContentPiece_flatten :: "ContentPiece \<Rightarrow> pydict" where
  "ContentPiece_flatten (ContentPiece color location) =
     dict_display (obj_flatten color @ obj_flatten location)"

text \<open>
  The bitmap that \<open>PILImage.open(filename).convert("RGB")\<close> yields, seen through the three
  members \<open>Image.flatten\<close> reads: \<open>size\<close> (width, height), \<open>getdata()\<close> (the pixels in row-major
  order, each an RGB triple) and \<open>getcolors()\<close>. The imaging library is not part of the
  repository; \<open>pil_valid\<close> states what its documentation promises about these members.
  \<open>getcolors(maxcolors=256)\<close> returns an unsorted list of (count, pixel) pairs, one for each
  colour used in the image, or \<open>None\<close> when the image has more than \<open>maxcolors\<close> colours;
  the source calls it with the default limit.
\<close>

type_synonym rgb = "int \<times> int \<times> int"

record pil_image =
  img_size :: "nat \<times> nat"
  getdata :: "rgb list"
  getcolors :: "(nat \<times> rgb) list option"

definition rgb_ok :: "rgb \<Rightarrow> bool" where
  "rgb_ok p = (case p of (r, g, b) \<Rightarrow> 0 \<le> r \<and> r \<le> 255 \<and> 0 \<le> g \<and> g \<le> 255 \<and> 0 \<le> b \<and> b \<le> 255)"

definition pil_valid :: "pil_image \<Rightarrow> bool" where
  "pil_valid im =
     (length (getdata im) = fst (img_size im) * snd (img_size im) \<and>
      list_all rgb_ok (getdata im) \<and>
      (case getcolors im of
         None \<Rightarrow> 256 < length (remdups (getdata im))
       | Some cs \<Rightarrow>
           length cs \<le> 256 \<and> distinct (map snd cs) \<and> set (map snd cs) = set (getdata im) \<and>
           list_all (\<lambda>(n, c). n = count_list (getdata im) c) cs))"

text \<open>
  A decoded bitmap built from its width, height and pixel data. The library leaves the order
  of the \<open>getcolors()\<close> list open; this constructor picks one order, and serves to build
  concrete images.
\<close>

definition pil_image_of :: "nat \<Rightarrow> nat \<Rightarrow> rgb list \<Rightarrow> pil_image" where
  "pil_image_of w h data =
     \<lparr>img_size = (w, h), getdata = data,
      getcolors = (if 256 < length (remdups data) then None
                   else Some (map (\<lambda>c. (count_list data c, c)) (remdups data)))\<rparr>"

text \<open>
  An element of a frame: the subclass, its own attributes, and the attributes of the base
  class. \<open>Text text\<close>, \<open>Circle radius fill\<close>, \<open>Triangle p1 p2 p3 fill\<close>,
  \<open>Rectangle width height fill\<close>, \<open>Line end_location\<close>, \<open>Image img\<close> (the attribute \<open>image\<close>).
\<close>

datatype piece =
    Text string ContentPiece
  | Circle int bool ContentPiece
  | Pixel ContentPiece
  | Triangle location location location bool ContentPiece
  | Rectangle int int bool ContentPiece
  | Line location ContentPiece
  | Image pil_image ContentPiece

text \<open>
  The constructors. An argument with the default \<open>None\<close> is an option; the Boolean \<open>fill\<close>
  (default \<open>True\<close>) is passed by the caller.
\<close>

definition Text_init :: "string \<Rightarrow> location option \<Rightarrow> color option \<Rightarrow> piece" where
  "Text_init text location color =
     Text text (ContentPiece_init (map_option LocationObj location) (map_option ColorObj color))"

definition Circle_init :: "int \<Rightarrow> bool \<Rightarrow> location option \<Rightarrow> color option \<Rightarrow> piece" where
  "Circle_init radius fill location color =
     Circle radius fill
       (ContentPiece_init (map_option LocationObj location) (map_option ColorObj color))"

definition Pixel_init :: "location option \<Rightarrow> color option \<Rightarrow> piece" where
  "Pixel_init location color =
     Pixel (ContentPiece_init (map_option LocationObj location) (map_option ColorObj color))"

definition Triangle_init ::
  "location \<Rightarrow> location \<Rightarrow> location \<Rightarrow> bool \<Rightarrow> color option \<Rightarrow> piece" where
  "Triangle_init p1 p2 p3 fill color =
     Triangle p1 p2 p3 fill (ContentPiece_init None (map_option ColorObj color))"

text \<open>\<open>Rectangle.__init__\<close> calls \<open>super().__init__(color, location)\<close>.\<close>

definition Rectangle_init ::
  "int \<Rightarrow> int \<Rightarrow> bool \<Rightarrow> location option \<Rightarrow> color option \<Rightarrow> piece" where
  "Rectangle_init width height fill location color =
     Rectangle width height fill
       (ContentPiece_init (map_option ColorObj color) (map_option LocationObj location))"

definition Line_init :: "location option \<Rightarrow> location option \<Rightarrow> color option \<Rightarrow> piece" where
  "Line_init start_location end_location color =
     Line (case end_location of None \<Rightarrow> Location 0 0 | Some l \<Rightarrow> l)
       (ContentPiece_init (map_option LocationObj start_location) (map_option ColorObj color))"

definition Image_init :: "pil_image \<Rightarrow> location option \<Rightarrow> piece" where
  "Image_init img location =
     Image img (ContentPiece_init (map_option LocationObj location) None)"

subsection \<open>Image.flatten\<close>

text \<open>\<open>Color(*pixel)\<close>\<close>

fun Color_of :: "rgb \<Rightarrow> color" where
  "Color_of (r, g, b) = Color r g b"

text \<open>The loop \<open>for pixel in self.image.getdata(): pixels.append(colors.index(pixel))\<close>.\<close>

fun index_all :: "rgb list \<Rightarrow> rgb list \<Rightarrow> error + nat list" where
  "index_all colors [] = Inr []"
| "index_all colors (pixel # rest) =
     (case list_index colors pixel of
        Inl e \<Rightarrow> Inl e
      | Inr i \<Rightarrow> (case index_all colors rest of Inl e \<Rightarrow> Inl e | Inr pixels \<Rightarrow> Inr (i # pixels)))"

text \<open>
  \<open>len(None)\<close> raises \<open>TypeError\<close>. The test \<open>len(...) < size[0] * size[1] / 2\<close> compares an
  integer of at most 256 with the quotient of a true division; it holds exactly when twice
  the integer is below the product.
\<close>

definition Image_flatten :: "pil_image \<Rightarrow> pyobj \<Rightarrow> error + pydict" where
  "Image_flatten img location =
     (case img_size img of (width, height) \<Rightarrow>
      (case getcolors img of
         None \<Rightarrow> Inl TypeError
       | Some getcolors_result \<Rightarrow>
           if length getcolors_result < 10 \<or>
              2 * length getcolors_result < fst (img_size img) * snd (img_size img)
           then
             (let colors = sort_reverse fst getcolors_result;
                  colors = map snd colors
              in case index_all colors (getdata img) of
                   Inl e \<Rightarrow> Inl e
                 | Inr pixels \<Rightarrow>
                     Inr (dict_display
                       [(''type'', VStr ''image''),
                        (''width'', VInt (int width)),
                        (''height'', VInt (int height)),
                        (''colors'', VList (map (\<lambda>pixel. VStr (hex (Color_of pixel))) colors)),
                        (''pixels'', VList (map (\<lambda>i. VInt (int i)) pixels)),
                        (''location'', VDict (obj_flatten location))]))
           else
             Inr (dict_display
               [(''type'', VStr ''image''),
                (''width'', VInt (int width)),
                (''height'', VInt (int height)),
                (''pixels'',
                   VList (map (\<lambda>pixel. VStr (hex (Color_of pixel))) (getdata img)))])))"

subsection \<open>flatten, by class\<close>

fun flatten :: "piece \<Rightarrow> error + pydict" where
  "flatten (Text text base) =
     Inr (dict_display ([(''type'', VStr ''text''), (''text'', VStr text)] @
                        ContentPiece_flatten base))"
| "flatten (Circle radius fill base) =
     Inr (dict_display ([(''type'', VStr ''circle''), (''radius'', VInt radius),
                         (''fill'', VBool fill)] @ ContentPiece_flatten base))"
| "flatten (Pixel base) =
     Inr (dict_display ([(''type'', VStr ''pixel'')] @ ContentPiece_flatten base))"
| "flatten (Triangle p1 p2 p3 fill (ContentPiece color location)) =
     Inr (dict_display
       [(''type'', VStr ''triangle''),
        (''p1'', VDict (Location_flatten p1)),
        (''p2'', VDict (Location_flatten p2)),
        (''p3'', VDict (Location_flatten p3)),
        (''color'', VDict (obj_flatten color))])"
| "flatten (Rectangle width height fill base) =
     Inr (dict_display ([(''type'', VStr ''rect''), (''width'', VInt width),
                         (''height'', VInt height), (''fill'', VBool fill)] @
                        ContentPiece_flatten base))"
| "flatten (Line end_location base) =
     Inr (dict_display ([(''type'', VStr ''line''),
                         (''end_location'', VDict (Location_flatten end_location))] @
                        ContentPiece_flatten base))"
| "flatten (Image img (ContentPiece color location)) = Image_flatten img location"

section \<open>Frame\<close>

text \<open>
  A frame holds references to its elements: the classes define no \<open>__eq__\<close>, so
  \<open>list.remove\<close> compares elements by identity, and \<open>'e\<close> is the type of element
  references. \<open>'d\<close> is the type of durations (a Python float, default 0).
\<close>

record ('e, 'd) Frame =
  elements :: "'e list"
  duration :: 'd

definition Frame_init :: "'e list option \<Rightarrow> 'd \<Rightarrow> ('e, 'd) Frame" where
  "Frame_init elems dur =
     \<lparr>elements = (case elems of None \<Rightarrow> [] | Some es \<Rightarrow> es), duration = dur\<rparr>"

definition add :: "('e, 'd) Frame \<Rightarrow> 'e \<Rightarrow> ('e, 'd) Frame" where
  "add self element = self\<lparr>elements := elements self @ [element]\<rparr>"

text \<open>\<open>remove\<close> returns what the call raised, if anything, and the frame after the call.\<close>

definition remove :: "('e, 'd) Frame \<Rightarrow> 'e \<Rightarrow> (error + unit) \<times> ('e, 'd) Frame" where
  "remove self element =
     (case list_remove (elements self) element of
        Inl e \<Rightarrow> (Inl e, self)
      | Inr es \<Rightarrow> (Inr (), self\<lparr>elements := es\<rparr>))"

section \<open>MatrixContent\<close>

text \<open>
  Frames are mutable objects with an identity. The heap is the list of all \<open>Frame\<close> objects
  created so far, and a reference is a position in it: a new object takes the next position.
\<close>

type_synonym ref = nat

definition new_object :: "'a \<Rightarrow> 'a list \<Rightarrow> ref \<times> 'a list" where
  "new_object obj heap = (length heap, heap @ [obj])"

record MatrixContent =
  frames :: "ref list"
  current_index :: int

definition MatrixContent_init ::
  "('e, 'd::zero) Frame list \<Rightarrow> MatrixContent \<times> ('e, 'd) Frame list" where
  "MatrixContent_init heap =
     (case new_object (Frame_init None 0) heap of
        (r, heap') \<Rightarrow> (\<lparr>frames = [r], current_index = 0\<rparr>, heap'))"

definition frame :: "MatrixContent \<Rightarrow> int option \<Rightarrow> error + ref" where
  "frame self index =
     (case index of
        None \<Rightarrow> list_getitem (frames self) (current_index self)
      | Some i \<Rightarrow> list_getitem (frames self) i)"

text \<open>\<open>new_frame\<close> returns its result (or what it raised), the object and the heap after the call.\<close>

definition new_frame ::
  "MatrixContent \<times> ('e, 'd::zero) Frame list \<Rightarrow>
   (error + ref) \<times> MatrixContent \<times> ('e, 'd) Frame list" where
  "new_frame st =
     (case st of (self, heap) \<Rightarrow>
      (let self1 = self\<lparr>current_index := current_index self + 1\<rparr>
       in case new_object (Frame_init None 0) heap of
            (r, heap') \<Rightarrow>
              (let self2 = self1\<lparr>frames := frames self1 @ [r]\<rparr>
               in (list_getitem (frames self2) (current_index self2), self2, heap'))))"

text \<open>The object and the heap after \<open>new_frame()\<close> has been called \<open>n\<close> times in a row.\<close>

fun new_frames ::
  "nat \<Rightarrow> MatrixContent \<times> ('e, 'd::zero) Frame list \<Rightarrow>
   MatrixContent \<times> ('e, 'd) Frame list" where
  "new_frames 0 st = st"
| "new_frames (Suc n) st = snd (new_frame (new_frames n st))"

section \<open>Example bitmaps\<close>

text \<open>
  The first \<open>n\<close> pixels, in row-major order, of the bitmap of width 256 whose pixel in
  column \<open>x\<close> and row \<open>y\<close> has the colour \<open>(x, y, 0)\<close>: \<open>n\<close> different colours.
\<close>

definition gradient :: "nat \<Rightarrow> rgb list" where
  "gradient n = map (\<lambda>i. (int (i mod 256), int (i div 256), 0)) [0..<n]"

section \<open>Auxiliary facts\<close>

lemma list_remove_absent: "v \<notin> set xs \<Longrightarrow> list_remove xs v = Inl ValueError"
  by (induction xs) auto

lemma list_remove_present: "v \<in> set xs \<Longrightarrow> list_remove xs v = Inr (remove1 v xs)"
  by (induction xs) auto

lemma append_single_eq_Cons: "ys @ [e] = e # ys \<longleftrightarrow> list_all (\<lambda>x. x = e) ys"
  by (induction ys) auto

lemma remove1_append_single:
  "remove1 e (xs @ [e]) = xs \<longleftrightarrow> list_all (\<lambda>x. x = e) (dropWhile (\<lambda>x. x \<noteq> e) xs)"
  by (induction xs) (auto simp: append_single_eq_Cons)

lemma new_frames_state:
  "new_frames n (MatrixContent_init heap) =
     (\<lparr>frames = [length heap ..< length heap + n + 1], current_index = int n\<rparr>,
      heap @ replicate (n + 1) (Frame_init None 0))"
proof (induction n)
  case 0
  show ?case by (simp add: MatrixContent_init_def new_object_def)
next
  case (Suc n)
  show ?case
    by (simp add: Suc new_frame_def new_object_def Let_def replicate_append_same
        del: replicate.simps upt.simps) (simp add: upt_Suc_append del: upt.simps)
qed

lemma new_frame_result:
  "fst (new_frame (new_frames n (MatrixContent_init heap))) = Inr (length heap + n + 1)"
proof -
  have k: "nat (int n + 1) = Suc n" by simp
  have "([length heap ..< length heap + n + 1] @ [length heap + n + 1]) ! Suc n
        = length heap + n + 1"
    by (simp add: nth_append del: upt.simps)
  then show ?thesis
    by (simp add: new_frames_state new_frame_def new_object_def Let_def list_getitem_def k
        del: replicate.simps upt.simps)
qed

lemma length_gradient: "length (gradient n) = n"
  by (simp add: gradient_def)

lemma distinct_gradient: "distinct (gradient n)"
proof -
  let ?f = "\<lambda>i::nat. (int (i mod 256), int (i div 256), 0::int)"
  have "inj ?f"
  proof (rule injI)
    fix i j :: nat
    assume "?f i = ?f j"
    then have "i mod 256 = j mod 256" "i div 256 = j div 256" by simp_all
    then show "i = j" by (metis div_mult_mod_eq)
  qed
  then have "inj_on ?f (set [0..<n])" by (rule inj_on_subset) simp
  moreover have "distinct [0..<n]" by simp
  ultimately have "distinct (map ?f [0..<n])" by (simp only: distinct_map simp_thms)
  then show ?thesis by (simp only: gradient_def)
qed

lemma card_gradient: "card (set (gradient n)) = n"
  using distinct_card [OF distinct_gradient, of n] by (simp add: length_gradient)

lemma rgb_ok_gradient: "n \<le> 65536 \<Longrightarrow> list_all rgb_ok (gradient n)"
proof -
  assume n: "n \<le> 65536"
  have "rgb_ok (int (i mod 256), int (i div 256), 0)" if "i < n" for i
  proof -
    have "i < 256 * 256" using that n by simp
    then have "i div 256 < 256" by (rule less_mult_imp_div_less)
    moreover have "i mod 256 < 256" by simp
    ultimately show ?thesis unfolding rgb_ok_def by simp
  qed
  then show ?thesis unfolding gradient_def list_all_iff by simp
qed

lemma map_snd_pair: "map snd (map (\<lambda>c. (f c, c)) xs) = xs"
  by (induction xs) simp_all

lemma list_all_counts:
  "list_all (\<lambda>(n, c). n = count_list data c) (map (\<lambda>c. (count_list data c, c)) xs)"
  by (induction xs) simp_all

lemma pil_image_of_valid:
  assumes "length data = w * h" and "list_all rgb_ok data"
  shows "pil_valid (pil_image_of w h data)"
proof (cases "256 < length (remdups data)")
  case True
  with assms show ?thesis by (simp add: pil_valid_def pil_image_of_def)
next
  case False
  with assms show ?thesis
    by (simp add: pil_valid_def pil_image_of_def map_snd_pair list_all_counts
        del: map_map)
qed

lemma getcolors_None_iff:
  assumes "pil_valid im"
  shows "getcolors im = None \<longleftrightarrow> 256 < card (set (getdata im))"
proof (cases "getcolors im")
  case None
  with assms show ?thesis by (simp add: pil_valid_def length_remdups_card_conv)
next
  case (Some cs)
  with assms have "length cs \<le> 256" "set (map snd cs) = set (getdata im)"
    by (simp_all add: pil_valid_def)
  moreover have "card (set (map snd cs)) \<le> length (map snd cs)" by (rule card_length)
  ultimately show ?thesis using Some by simp
qed

lemma getcolors_length:
  assumes "pil_valid im" "getcolors im = Some cs"
  shows "length cs = card (set (getdata im))"
proof -
  from assms have "distinct (map snd cs)" "set (map snd cs) = set (getdata im)"
    by (simp_all add: pil_valid_def)
  then show ?thesis using distinct_card [of "map snd cs"] by simp
qed

lemma Image_flatten_None: "getcolors im = None \<Longrightarrow> Image_flatten im loc = Inl TypeError"
  by (simp add: Image_flatten_def split: prod.splits)

lemma Image_flatten_many_colors:
  assumes "pil_valid im" "256 < card (set (getdata im))"
  shows "Image_flatten im loc = Inl TypeError"
proof -
  have "getcolors im = None" using assms by (simp add: getcolors_None_iff)
  then show ?thesis by (rule Image_flatten_None)
qed

lemma flatten_Image_init:
  "flatten (Image_init im location) =
     Image_flatten im (case location of None \<Rightarrow> LocationObj (Location 0 0)
                                      | Some l \<Rightarrow> LocationObj l)"
  by (cases location) (simp_all add: Image_init_def ContentPiece_init_def)

lemma list_all_replicate: "P x \<Longrightarrow> list_all P (replicate n x)"
  by (induction n) simp_all

lemma origin_in_gradient: "0 < n \<Longrightarrow> (0, 0, 0) \<in> set (gradient n)"
proof -
  assume "0 < n"
  then have "0 \<in> set [0..<n]" by simp
  then have "(\<lambda>i. (int (i mod 256), int (i div 256), 0::int)) 0 \<in> set (gradient n)"
    unfolding gradient_def set_map by (rule imageI)
  then show ?thesis by simp
qed

subsection \<open>Sorting and indexing\<close>

lemma set_sort_reverse: "set (sort_reverse f xs) = set xs"
  by (simp add: sort_reverse_def)

lemma length_sort_reverse: "length (sort_reverse f xs) = length xs"
  by (simp add: sort_reverse_def)

lemma distinct_sort_reverse: "distinct (sort_reverse f xs) = distinct xs"
  by (simp add: sort_reverse_def)

lemma sorted_sort_reverse: "sorted (rev (map f (sort_reverse f xs)))"
  by (simp add: sort_reverse_def rev_map)

lemma sort_reverse_stable:
  "filter (\<lambda>y. f y = k) (sort_reverse f xs) = filter (\<lambda>y. f y = k) xs"
proof -
  have "filter (\<lambda>y. f y = k) (sort_reverse f xs) =
        rev (filter (\<lambda>y. f y = k) (sort_key f (rev xs)))"
    by (simp add: sort_reverse_def rev_filter)
  also have "\<dots> = rev (filter (\<lambda>y. f y = k) (rev xs))"
    by (simp only: sort_key_stable)
  also have "\<dots> = filter (\<lambda>y. f y = k) xs"
    by (simp add: rev_filter)
  finally show ?thesis .
qed

lemma list_index_present:
  "v \<in> set xs \<Longrightarrow> \<exists>i. list_index xs v = Inr i \<and> i < length xs \<and> xs ! i = v"
  by (induction xs) auto

lemma index_all_present:
  "set data \<subseteq> set colors \<Longrightarrow>
   \<exists>pixels. index_all colors data = Inr pixels \<and> length pixels = length data \<and>
     (\<forall>i < length data. pixels ! i < length colors \<and> colors ! (pixels ! i) = data ! i)"
proof (induction data)
  case Nil
  show ?case by simp
next
  case (Cons p ps)
  then obtain pixels where ps: "index_all colors ps = Inr pixels" "length pixels = length ps"
    "\<forall>i < length ps. pixels ! i < length colors \<and> colors ! (pixels ! i) = ps ! i"
    by auto
  from Cons.prems obtain j where j: "list_index colors p = Inr j" "j < length colors"
    "colors ! j = p"
    using list_index_present [of p colors] by auto
  have "\<forall>i < length (p # ps). (j # pixels) ! i < length colors \<and>
          colors ! ((j # pixels) ! i) = (p # ps) ! i"
    using ps(3) j(2,3) by (auto simp: nth_Cons split: nat.splits)
  then show ?case using ps(1,2) j(1) by auto
qed

subsection \<open>Bitmaps with at most 256 colours\<close>

text \<open>
  When \<open>getcolors()\<close> returns a list, \<open>Image.flatten\<close> behaves as described: the palette is
  the list of the distinct colours, in descending order of their number of occurrences,
  colours with the same number in the order \<open>getcolors()\<close> gave them; each pixel is encoded
  by the position of its colour in the palette; and the raw encoding has one hex string
  for each pixel and no \<open>location\<close>.
\<close>

lemma counted_fst:
  assumes "list_all (\<lambda>(n, c). n = g c) cs" and "x \<in> set cs"
  shows "fst x = g (snd x)"
  using assms by (auto simp: list_all_iff)

lemma counted_map_fst:
  assumes "list_all (\<lambda>(n, c). n = g c) cs" and "set ys \<subseteq> set cs"
  shows "map g (map snd ys) = map fst ys"
  using assms counted_fst [OF assms(1)] by (induction ys) auto

lemma counted_filter:
  assumes "list_all (\<lambda>(n, c). n = g c) cs" and "set ys \<subseteq> set cs"
  shows "filter (\<lambda>c. g c = k) (map snd ys) = map snd (filter (\<lambda>x. fst x = k) ys)"
  using assms counted_fst [OF assms(1)] by (induction ys) auto

text \<open>The palette of a bitmap with at most 256 colours.\<close>

lemma palette_properties:
  assumes v: "pil_valid im" and cs: "getcolors im = Some cs"
  shows "distinct (map snd (sort_reverse fst cs))"
    and "set (map snd (sort_reverse fst cs)) = set (getdata im)"
    and "length (map snd (sort_reverse fst cs)) = card (set (getdata im))"
    and "sorted (rev (map (count_list (getdata im)) (map snd (sort_reverse fst cs))))"
    and "filter (\<lambda>c. count_list (getdata im) c = k) (map snd (sort_reverse fst cs)) =
         filter (\<lambda>c. count_list (getdata im) c = k) (map snd cs)"
proof -
  let ?srt = "sort_reverse fst cs"
  from v cs have d: "distinct (map snd cs)" and s: "set (map snd cs) = set (getdata im)"
    and n: "list_all (\<lambda>(n, c). n = count_list (getdata im) c) cs"
    by (simp_all add: pil_valid_def)
  from d have "distinct cs" "inj_on snd (set cs)" by (simp_all add: distinct_map)
  then show "distinct (map snd ?srt)"
    by (simp add: distinct_map distinct_sort_reverse set_sort_reverse)
  show "set (map snd ?srt) = set (getdata im)"
    using s by (simp add: set_sort_reverse)
  show "length (map snd ?srt) = card (set (getdata im))"
    using getcolors_length [OF v cs] by (simp add: length_sort_reverse)
  have sub: "set ?srt \<subseteq> set cs" "set cs \<subseteq> set cs" by (simp_all add: set_sort_reverse)
  show "sorted (rev (map (count_list (getdata im)) (map snd ?srt)))"
    by (simp only: counted_map_fst [OF n sub(1)] sorted_sort_reverse)
  show "filter (\<lambda>c. count_list (getdata im) c = k) (map snd ?srt) =
        filter (\<lambda>c. count_list (getdata im) c = k) (map snd cs)"
    by (simp only: counted_filter [OF n sub(1)] counted_filter [OF n sub(2)]
        sort_reverse_stable)
qed

lemma image_palette_encoding:
  assumes v: "pil_valid im" and cs: "getcolors im = Some cs"
    and sel: "card (set (getdata im)) < 10 \<or>
              2 * card (set (getdata im)) < fst (img_size im) * snd (img_size im)"
  shows "\<exists>pixels.
     Image_flatten im loc =
       Inr [(''type'', VStr ''image''),
            (''width'', VInt (int (fst (img_size im)))),
            (''height'', VInt (int (snd (img_size im)))),
            (''colors'', VList (map (\<lambda>pixel. VStr (hex (Color_of pixel)))
                                  (map snd (sort_reverse fst cs)))),
            (''pixels'', VList (map (\<lambda>i. VInt (int i)) pixels)),
            (''location'', VDict (obj_flatten loc))] \<and>
     length pixels = fst (img_size im) * snd (img_size im) \<and>
     (\<forall>i < length pixels.
        pixels ! i < length (map snd (sort_reverse fst cs)) \<and>
        map snd (sort_reverse fst cs) ! (pixels ! i) = getdata im ! i)"
proof -
  let ?palette = "map snd (sort_reverse fst cs)"
  have "set (getdata im) \<subseteq> set ?palette"
    using palette_properties(2) [OF v cs] by simp
  then obtain pixels where px: "index_all ?palette (getdata im) = Inr pixels"
    "length pixels = length (getdata im)"
    "\<forall>i < length (getdata im). pixels ! i < length ?palette \<and>
        ?palette ! (pixels ! i) = getdata im ! i"
    using index_all_present [of "getdata im" ?palette] by blast
  have len: "length (getdata im) = fst (img_size im) * snd (img_size im)"
    using v by (simp add: pil_valid_def)
  have c: "length cs < 10 \<or> 2 * length cs < fst (img_size im) * snd (img_size im)"
    using sel by (simp only: getcolors_length [OF v cs])
  have flat: "Image_flatten im loc =
       Inr [(''type'', VStr ''image''),
            (''width'', VInt (int (fst (img_size im)))),
            (''height'', VInt (int (snd (img_size im)))),
            (''colors'', VList (map (\<lambda>pixel. VStr (hex (Color_of pixel))) ?palette)),
            (''pixels'', VList (map (\<lambda>i. VInt (int i)) pixels)),
            (''location'', VDict (obj_flatten loc))]"
    using c by (simp add: Image_flatten_def cs px(1) dict_display_def split: prod.splits)
  moreover have "length pixels = fst (img_size im) * snd (img_size im)"
    using px(2) len by simp
  moreover have "\<forall>i < length pixels. pixels ! i < length ?palette \<and>
        ?palette ! (pixels ! i) = getdata im ! i"
    using px(3) unfolding px(2) .
  ultimately show ?thesis by blast
qed

lemma image_raw_encoding:
  assumes v: "pil_valid im" and cs: "getcolors im = Some cs"
    and sel: "10 \<le> card (set (getdata im))"
             "fst (img_size im) * snd (img_size im) \<le> 2 * card (set (getdata im))"
  shows "Image_flatten im loc =
       Inr [(''type'', VStr ''image''),
            (''width'', VInt (int (fst (img_size im)))),
            (''height'', VInt (int (snd (img_size im)))),
            (''pixels'', VList (map (\<lambda>pixel. VStr (hex (Color_of pixel))) (getdata im)))]"
    and "length (getdata im) = fst (img_size im) * snd (img_size im)"
proof -
  have c: "\<not> (length cs < 10 \<or> 2 * length cs < fst (img_size im) * snd (img_size im))"
    using sel by (simp add: getcolors_length [OF v cs])
  show "Image_flatten im loc =
       Inr [(''type'', VStr ''image''),
            (''width'', VInt (int (fst (img_size im)))),
            (''height'', VInt (int (snd (img_size im)))),
            (''pixels'', VList (map (\<lambda>pixel. VStr (hex (Color_of pixel))) (getdata im)))]"
    using c by (simp add: Image_flatten_def cs dict_display_def split: prod.splits)
  show "length (getdata im) = fst (img_size im) * snd (img_size im)"
    using v by (simp add: pil_valid_def)
qed

lemma image_single_color_example:
  "flatten (Image_init (pil_image_of 2 2 (replicate 4 (10, 20, 30))) None) =
     Inr [(''type'', VStr ''image''), (''width'', VInt 2), (''height'', VInt 2),
          (''colors'', VList [VStr ''#0a141e'']),
          (''pixels'', VList [VInt 0, VInt 0, VInt 0, VInt 0]),
          (''location'', VDict [(''x'', VInt 0), (''y'', VInt 0)])]"
  by code_simp

subsection \<open>The shapes that merge colour and location\<close>

lemma Color_flatten_eq: "Color_flatten c = [(''color'', VStr (hex c))]"
  by (simp add: dict_display_def)

lemma Location_flatten_eq: "Location_flatten (Location x y) = [(''x'', VInt x), (''y'', VInt y)]"
  by (simp add: dict_display_def)

lemma ContentPiece_flatten_eq:
  "ContentPiece_flatten (ContentPiece (ColorObj c) (LocationObj (Location x y))) =
     [(''color'', VStr (hex c)), (''x'', VInt x), (''y'', VInt y)]"
  by (simp add: dict_display_def)

lemma ContentPiece_init_eq:
  "ContentPiece_init (map_option LocationObj location) (map_option ColorObj color) =
     ContentPiece (ColorObj (case color of None \<Rightarrow> Color 255 255 255 | Some c \<Rightarrow> c))
                  (LocationObj (case location of None \<Rightarrow> Location 0 0 | Some l \<Rightarrow> l))"
  by (cases location; cases color) (simp_all add: ContentPiece_init_def)

lemma shapes_merge_color_location:
  fixes location :: "location option" and color :: "color option"
  defines "c \<equiv> (case color of None \<Rightarrow> Color 255 255 255 | Some c \<Rightarrow> c)"
    and "l \<equiv> (case location of None \<Rightarrow> Location 0 0 | Some l \<Rightarrow> l)"
  shows "flatten (Pixel_init location color) =
           Inr ([(''type'', VStr ''pixel''), (''color'', VStr (hex c))] @ Location_flatten l)"
    and "flatten (Text_init text location color) =
           Inr ([(''type'', VStr ''text''), (''text'', VStr text), (''color'', VStr (hex c))] @
                Location_flatten l)"
    and "flatten (Circle_init radius fill location color) =
           Inr ([(''type'', VStr ''circle''), (''radius'', VInt radius), (''fill'', VBool fill),
                 (''color'', VStr (hex c))] @ Location_flatten l)"
    and "flatten (Line_init location end_location color) =
           Inr ([(''type'', VStr ''line''),
                 (''end_location'', VDict (Location_flatten
                    (case end_location of None \<Rightarrow> Location 0 0 | Some e \<Rightarrow> e))),
                 (''color'', VStr (hex c))] @ Location_flatten l)"
proof -
  obtain x y where l: "l = Location x y" by (cases l)
  have b: "ContentPiece_init (map_option LocationObj location) (map_option ColorObj color) =
           ContentPiece (ColorObj c) (LocationObj (Location x y))"
    by (simp only: ContentPiece_init_eq c_def l [symmetric] l_def)
  show "flatten (Pixel_init location color) =
           Inr ([(''type'', VStr ''pixel''), (''color'', VStr (hex c))] @ Location_flatten l)"
    by (simp add: Pixel_init_def b l dict_display_def)
  show "flatten (Text_init text location color) =
           Inr ([(''type'', VStr ''text''), (''text'', VStr text), (''color'', VStr (hex c))] @
                Location_flatten l)"
    by (simp add: Text_init_def b l dict_display_def)
  show "flatten (Circle_init radius fill location color) =
           Inr ([(''type'', VStr ''circle''), (''radius'', VInt radius), (''fill'', VBool fill),
                 (''color'', VStr (hex c))] @ Location_flatten l)"
    by (simp add: Circle_init_def b l dict_display_def)
  show "flatten (Line_init location end_location color) =
           Inr ([(''type'', VStr ''line''),
                 (''end_location'', VDict (Location_flatten
                    (case end_location of None \<Rightarrow> Location 0 0 | Some e \<Rightarrow> e))),
                 (''color'', VStr (hex c))] @ Location_flatten l)"
    by (simp add: Line_init_def b l dict_display_def del: Location_flatten.simps)
       (simp add: dict_display_def)
qed

lemma rectangle_both_or_neither:
  "flatten (Rectangle_init width height fill (Some (Location x y)) (Some c)) =
     Inr [(''type'', VStr ''rect''), (''width'', VInt width), (''height'', VInt height),
          (''fill'', VBool fill), (''x'', VInt x), (''y'', VInt y), (''color'', VStr (hex c))]"
  "flatten (Rectangle_init width height fill None None) =
     Inr [(''type'', VStr ''rect''), (''width'', VInt width), (''height'', VInt height),
          (''fill'', VBool fill), (''color'', VStr (hex (Color 255 255 255))),
          (''x'', VInt 0), (''y'', VInt 0)]"
  by (simp_all add: Rectangle_init_def ContentPiece_init_def dict_display_def)

lemma rectangle_one_argument:
  "flatten (Rectangle_init width height fill (Some (Location x y)) None) =
     Inr [(''type'', VStr ''rect''), (''width'', VInt width), (''height'', VInt height),
          (''fill'', VBool fill), (''x'', VInt 0), (''y'', VInt 0)]"
  "flatten (Rectangle_init width height fill None (Some c)) =
     Inr [(''type'', VStr ''rect''), (''width'', VInt width), (''height'', VInt height),
          (''fill'', VBool fill), (''color'', VStr (hex c))]"
  by (simp_all add: Rectangle_init_def ContentPiece_init_def dict_display_def)

lemma flatten_shapes_total:
  "\<exists>d. flatten (Text text base) = Inr d"
  "\<exists>d. flatten (Circle radius fill base) = Inr d"
  "\<exists>d. flatten (Pixel base) = Inr d"
  "\<exists>d. flatten (Triangle p1 p2 p3 fill base) = Inr d"
  "\<exists>d. flatten (Rectangle width height fill base) = Inr d"
  "\<exists>d. flatten (Line end_location base) = Inr d"
  by (cases base; simp)+

lemma flatten_image_total:
  assumes "pil_valid im" and "card (set (getdata im)) \<le> 256"
  shows "\<exists>d. flatten (Image_init im location) = Inr d"
proof -
  from assms obtain cs where cs: "getcolors im = Some cs"
    using getcolors_None_iff [of im] by (cases "getcolors im") auto
  show ?thesis
  proof (cases "card (set (getdata im)) < 10 \<or>
      2 * card (set (getdata im)) < fst (img_size im) * snd (img_size im)")
    case True
    then show ?thesis
      using image_palette_encoding [OF assms(1) cs True] by (simp only: flatten_Image_init) blast
  next
    case False
    then show ?thesis
      using image_raw_encoding(1) [OF assms(1) cs] by (simp only: flatten_Image_init) auto
  qed
qed

section \<open>Flattening the shapes\<close>

text \<open>
  Claim C3, at \<open>Rectangle(5, 3, True, location=Location(2, 2))\<close> with the colour left to its
  default. \<open>Rectangle.__init__\<close> hands its arguments to the base class in the order
  (color, location), while the base class takes (location, color): the given location
  becomes the attribute \<open>color\<close> and the attribute \<open>location\<close> gets the default origin.
  The flattened mapping then has no key \<open>color\<close>, and its \<open>x\<close> and \<open>y\<close> are 0 and 0, not
  the coordinates 2 and 2 of the rectangle. Pixel, Text, Circle and Line do merge the
  colour and the location for every combination of arguments
  (\<open>shapes_merge_color_location\<close>), and so does Rectangle when both arguments or neither
  are given (\<open>rectangle_both_or_neither\<close>).
\<close>

theorem rectangle_location_only:
  "flatten (Rectangle_init 5 3 True (Some (Location 2 2)) None) =
     Inr [(''type'', VStr ''rect''), (''width'', VInt 5), (''height'', VInt 3),
          (''fill'', VBool True), (''x'', VInt 0), (''y'', VInt 0)]"
  by code_simp

text \<open>
  Claim C4: \<open>Rectangle(width=5, height=3, fill=True, location=Location(2, 2),
  color=Color(0, 255, 0))\<close> flattens to a dict that, as a mapping, is
  \<open>{"type": "rect", "width": 5, "height": 3, "fill": true, "color": "#00ff00", "x": 2, "y": 2}\<close>.
  The first conjunct is the dict in the order the code builds it, the second says that it
  and the dict of the claim are the same mapping.
\<close>

theorem rectangle_example:
  "flatten (Rectangle_init 5 3 True (Some (Location 2 2)) (Some (Color 0 255 0))) =
     Inr [(''type'', VStr ''rect''), (''width'', VInt 5), (''height'', VInt 3),
          (''fill'', VBool True), (''x'', VInt 2), (''y'', VInt 2),
          (''color'', VStr ''#00ff00'')] \<and>
   same_mapping
     [(''type'', VStr ''rect''), (''width'', VInt 5), (''height'', VInt 3),
      (''fill'', VBool True), (''x'', VInt 2), (''y'', VInt 2), (''color'', VStr ''#00ff00'')]
     [(''type'', VStr ''rect''), (''width'', VInt 5), (''height'', VInt 3),
      (''fill'', VBool True), (''color'', VStr ''#00ff00''), (''x'', VInt 2), (''y'', VInt 2)]"
  by code_simp

text \<open>
  Claim C5: \<open>Triangle.flatten\<close> yields the keys \<open>type\<close>, \<open>p1\<close>, \<open>p2\<close>, \<open>p3\<close> and \<open>color\<close>
  only; each vertex is a flattened Location nested under its key, and the colour (the given
  one, or white) is a flattened Color nested under \<open>color\<close>; nothing is merged at the top
  level. The last conjunct is the triangle (0,0), (1,0), (0,1) in red.
\<close>

theorem triangle_flatten:
  "flatten (Triangle_init p1 p2 p3 fill (Some c)) =
     Inr [(''type'', VStr ''triangle''),
          (''p1'', VDict (Location_flatten p1)),
          (''p2'', VDict (Location_flatten p2)),
          (''p3'', VDict (Location_flatten p3)),
          (''color'', VDict [(''color'', VStr (hex c))])] \<and>
   flatten (Triangle_init p1 p2 p3 fill None) =
     Inr [(''type'', VStr ''triangle''),
          (''p1'', VDict (Location_flatten p1)),
          (''p2'', VDict (Location_flatten p2)),
          (''p3'', VDict (Location_flatten p3)),
          (''color'', VDict [(''color'', VStr (hex (Color 255 255 255)))])] \<and>
   Location_flatten (Location x y) = [(''x'', VInt x), (''y'', VInt y)] \<and>
   flatten (Triangle_init (Location 0 0) (Location 1 0) (Location 0 1) True
              (Some (Color 255 0 0))) =
     Inr [(''type'', VStr ''triangle''),
          (''p1'', VDict [(''x'', VInt 0), (''y'', VInt 0)]),
          (''p2'', VDict [(''x'', VInt 1), (''y'', VInt 0)]),
          (''p3'', VDict [(''x'', VInt 0), (''y'', VInt 1)]),
          (''color'', VDict [(''color'', VStr ''#ff0000'')])]"
  apply (intro conjI)
     apply (simp add: Triangle_init_def ContentPiece_init_def dict_display_def)
     apply (simp add: Triangle_init_def ContentPiece_init_def dict_display_def)
   apply (simp add: dict_display_def)
  apply code_simp
  done

section \<open>Adding to and removing from a frame\<close>

text \<open>
  Claim C7 as stated fails when the element is already in the frame: in the frame \<open>[1, 2]\<close>,
  adding 1 and removing 1 deletes the first occurrence and leaves \<open>[2, 1]\<close>.
\<close>

theorem add_remove_counterexample:
  "elements (snd (remove (add \<lparr>elements = [1::nat, 2], duration = 0::int\<rparr> 1) 1)) = [2, 1] \<and>
   snd (remove (add \<lparr>elements = [1::nat, 2], duration = 0::int\<rparr> 1) 1)
     \<noteq> \<lparr>elements = [1::nat, 2], duration = 0::int\<rparr>"
  by (simp add: remove_def add_def)

text \<open>
  Claim C7, amended: \<open>add(e)\<close> followed by \<open>remove(e)\<close> never raises and deletes the first
  occurrence of \<open>e\<close> from the extended sequence; the frame is back to what it was before
  the \<open>add\<close> exactly when every element from the first occurrence of \<open>e\<close> on is \<open>e\<close>
  itself, which holds in particular when \<open>e\<close> was not in the frame.
\<close>

theorem add_remove_restores_iff:
  "fst (remove (add f e) e) = Inr () \<and>
   elements (snd (remove (add f e) e)) = remove1 e (elements f @ [e]) \<and>
   (snd (remove (add f e) e) = f \<longleftrightarrow>
      list_all (\<lambda>x. x = e) (dropWhile (\<lambda>x. x \<noteq> e) (elements f)))"
proof -
  have r: "list_remove (elements f @ [e]) e = Inr (remove1 e (elements f @ [e]))"
    by (rule list_remove_present) simp
  have s: "snd (remove (add f e) e) = f\<lparr>elements := remove1 e (elements f @ [e])\<rparr>"
    by (simp add: remove_def add_def r)
  have "f\<lparr>elements := remove1 e (elements f @ [e])\<rparr> = f \<longleftrightarrow>
        remove1 e (elements f @ [e]) = elements f"
    by (cases f) simp
  then show ?thesis
    using remove1_append_single [of e "elements f"]
    by (simp add: s) (simp add: remove_def add_def r)
qed

text \<open>
  Claim C10: removing an element that is not in the frame raises \<open>ValueError\<close> and leaves
  the frame as it was.
\<close>

theorem remove_absent:
  "e \<notin> set (elements f) \<Longrightarrow> remove f e = (Inl ValueError, f)"
  by (simp add: remove_def list_remove_absent)

theorem remove_absent_witness:
  "(3::nat) \<notin> set (elements \<lparr>elements = [1, 2], duration = 0::int\<rparr>) \<and>
   remove \<lparr>elements = [1, 2], duration = 0::int\<rparr> (3::nat) =
     (Inl ValueError, \<lparr>elements = [1, 2], duration = 0\<rparr>)"
  using remove_absent [of "3::nat" "\<lparr>elements = [1, 2], duration = 0::int\<rparr>"] by simp

section \<open>The frames of a MatrixContent\<close>

text \<open>
  Claim C8 as stated fails for negative indices: on a fresh MatrixContent, \<open>frame(-1)\<close>
  returns the only frame instead of raising.
\<close>

theorem frame_negative_index_counterexample:
  "frame (fst (MatrixContent_init ([] :: (nat, int) Frame list))) (Some (- 1)) = Inr 0 \<and>
   frame (fst (MatrixContent_init ([] :: (nat, int) Frame list))) (Some (- 1)) \<noteq> Inl IndexError"
  by (simp add: frame_def MatrixContent_init_def new_object_def list_getitem_def)

text \<open>
  Claim C8, amended: \<open>frame(index)\<close> returns the frame stored at \<open>index\<close> when
  \<open>0 \<le> index < len(frames)\<close>, the frame stored at \<open>len(frames) + index\<close> when
  \<open>-len(frames) \<le> index < 0\<close>, and raises \<open>IndexError\<close> for every other index; with no
  index it is \<open>frame(current_index)\<close>.
\<close>

theorem frame_lookup:
  "frame self (Some i) =
     (if 0 \<le> i \<and> i < int (length (frames self)) then Inr (frames self ! nat i)
      else if - int (length (frames self)) \<le> i \<and> i < 0
           then Inr (frames self ! nat (i + int (length (frames self))))
      else Inl IndexError) \<and>
   frame self None = frame self (Some (current_index self))"
  by (auto simp: frame_def list_getitem_def Let_def)

text \<open>
  Claim C6: a fresh MatrixContent holds exactly one frame, which is empty; after \<open>n\<close> calls
  of \<open>new_frame()\<close> it holds \<open>n + 1\<close> frames, all different objects, and \<open>frame()\<close> with no
  index returns the newest object of the heap (the last of its \<open>length heap + n + 1\<close>
  objects), an empty frame: the one the last \<open>new_frame()\<close> created and returned.
\<close>

theorem new_frame_count:
  fixes heap :: "('e, 'd::zero) Frame list"
  shows
  "frames (fst (MatrixContent_init heap)) = [length heap] \<and>
   snd (MatrixContent_init heap) ! length heap = \<lparr>elements = [], duration = 0\<rparr> \<and>
   length (frames (fst (new_frames n (MatrixContent_init heap)))) = n + 1 \<and>
   distinct (frames (fst (new_frames n (MatrixContent_init heap)))) \<and>
   length (snd (new_frames n (MatrixContent_init heap))) = length heap + n + 1 \<and>
   frame (fst (new_frames n (MatrixContent_init heap))) None = Inr (length heap + n) \<and>
   snd (new_frames n (MatrixContent_init heap)) ! (length heap + n) =
     \<lparr>elements = [], duration = 0\<rparr> \<and>
   fst (new_frame (new_frames n (MatrixContent_init heap))) = Inr (length heap + n + 1) \<and>
   frame (fst (new_frames (Suc n) (MatrixContent_init heap))) None =
     fst (new_frame (new_frames n (MatrixContent_init heap)))"
proof -
  let ?st = "new_frames n (MatrixContent_init heap)"
  have a: "frames (fst (MatrixContent_init heap)) = [length heap]"
    by (simp add: MatrixContent_init_def new_object_def)
  have b: "snd (MatrixContent_init heap) ! length heap = \<lparr>elements = [], duration = 0\<rparr>"
    by (simp add: MatrixContent_init_def new_object_def Frame_init_def)
  have c: "length (frames (fst ?st)) = n + 1" "distinct (frames (fst ?st))"
    "length (snd ?st) = length heap + n + 1"
    by (simp_all add: new_frames_state del: upt.simps replicate.simps)
  have d: "frame (fst (new_frames m (MatrixContent_init heap))) None = Inr (length heap + m)" for m
    by (simp add: new_frames_state frame_def list_getitem_def Let_def nth_append
        del: upt.simps replicate.simps)
  have e: "snd ?st ! (length heap + n) = \<lparr>elements = [], duration = 0\<rparr>"
    by (simp add: new_frames_state nth_append Frame_init_def del: replicate.simps)
  show ?thesis
    using a b c d [of n] d [of "Suc n"] e new_frame_result [of n heap] by simp
qed

section \<open>Flattening images\<close>

text \<open>
  Claim C9, on a bitmap with more than 256 colours: \<open>getcolors()\<close> returns \<open>None\<close> there,
  and \<open>Image.flatten\<close> raises \<open>TypeError\<close> at \<open>len(None)\<close>, whatever the location, although
  the comment in the source wants such a bitmap encoded as a list of pixels. The shapes
  and the bitmaps with at most 256 colours always flatten (\<open>flatten_shapes_total\<close>,
  \<open>flatten_image_total\<close>).
\<close>

theorem image_many_colors_raises:
  "pil_valid im \<Longrightarrow> 256 < card (set (getdata im)) \<Longrightarrow>
   flatten (Image_init im location) = Inl TypeError"
  by (simp only: flatten_Image_init Image_flatten_many_colors)

theorem image_many_colors_raises_witness:
  "pil_valid (pil_image_of 257 1 (gradient 257)) \<and>
   256 < card (set (getdata (pil_image_of 257 1 (gradient 257)))) \<and>
   flatten (Image_init (pil_image_of 257 1 (gradient 257)) None) = Inl TypeError"
proof -
  have v: "pil_valid (pil_image_of 257 1 (gradient 257))"
    by (rule pil_image_of_valid) (simp_all add: length_gradient rgb_ok_gradient)
  have "getdata (pil_image_of 257 1 (gradient 257)) = gradient 257"
    by (simp add: pil_image_of_def)
  then have c: "256 < card (set (getdata (pil_image_of 257 1 (gradient 257))))"
    by (simp add: card_gradient)
  show ?thesis using v c image_many_colors_raises [OF v c, of None] by (intro conjI)
qed

text \<open>
  Claim C2, at the 256 by 2 bitmap whose pixel in column \<open>x\<close> and row \<open>y\<close> is \<open>(x, y, 0)\<close>:
  its 512 pixels have 512 colours, at least 10 and at least half the pixel count, and
  \<open>Image.flatten\<close> raises \<open>TypeError\<close> instead of returning the raw encoding. With at
  most 256 colours the raw encoding is as the claim says (\<open>image_raw_encoding\<close>).
\<close>

theorem image_raw_path_raises:
  "pil_valid (pil_image_of 256 2 (gradient 512)) \<and>
   length (getdata (pil_image_of 256 2 (gradient 512))) = 256 * 2 \<and>
   card (set (getdata (pil_image_of 256 2 (gradient 512)))) = 512 \<and>
   flatten (Image_init (pil_image_of 256 2 (gradient 512)) None) = Inl TypeError"
proof -
  have v: "pil_valid (pil_image_of 256 2 (gradient 512))"
    by (rule pil_image_of_valid) (simp_all add: length_gradient rgb_ok_gradient)
  have d: "getdata (pil_image_of 256 2 (gradient 512)) = gradient 512"
    by (simp add: pil_image_of_def)
  have c: "card (set (getdata (pil_image_of 256 2 (gradient 512)))) = 512"
    by (simp only: d card_gradient)
  have l: "length (getdata (pil_image_of 256 2 (gradient 512))) = 256 * 2"
    by (simp add: d length_gradient)
  have "Image_flatten (pil_image_of 256 2 (gradient 512)) loc = Inl TypeError" for loc
    by (rule Image_flatten_many_colors [OF v]) (unfold c, simp)
  then have "flatten (Image_init (pil_image_of 256 2 (gradient 512)) None) = Inl TypeError"
    by (simp only: flatten_Image_init)
  with v c l show ?thesis by (intro conjI)
qed

text \<open>
  Claim C1, at a 600 by 1 bitmap with 257 colours (257 different pixels, then 343 black
  ones): the colour count is below half the pixel count, so the claim selects the palette
  encoding, and \<open>Image.flatten\<close> raises \<open>TypeError\<close>. With at most 256 colours the
  selection, the palette and the pixel indices are as the claim says
  (\<open>image_palette_encoding\<close>, \<open>palette_properties\<close>, \<open>image_raw_encoding\<close>,
  \<open>image_single_color_example\<close>).
\<close>

theorem image_palette_path_raises:
  "pil_valid (pil_image_of 600 1 (gradient 257 @ replicate 343 (0, 0, 0))) \<and>
   card (set (getdata (pil_image_of 600 1 (gradient 257 @ replicate 343 (0, 0, 0))))) = 257 \<and>
   2 * 257 < fst (img_size (pil_image_of 600 1 (gradient 257 @ replicate 343 (0, 0, 0)))) *
             snd (img_size (pil_image_of 600 1 (gradient 257 @ replicate 343 (0, 0, 0)))) \<and>
   flatten (Image_init (pil_image_of 600 1 (gradient 257 @ replicate 343 (0, 0, 0))) None) =
     Inl TypeError"
proof -
  let ?data = "gradient 257 @ replicate 343 (0, 0, 0)"
  let ?im = "pil_image_of 600 1 ?data"
  have ok: "rgb_ok (0, 0, 0)" by (simp add: rgb_ok_def)
  have v: "pil_valid ?im"
    by (rule pil_image_of_valid) (simp_all add: length_gradient rgb_ok_gradient ok list_all_replicate)
  have d: "getdata ?im = ?data" by (simp add: pil_image_of_def)
  have "set ?data = set (gradient 257)"
    using origin_in_gradient [of 257] by auto
  then have c: "card (set (getdata ?im)) = 257"
    by (simp only: d card_gradient)
  have s: "2 * 257 < fst (img_size ?im) * snd (img_size ?im)"
    by (simp add: pil_image_of_def)
  have "Image_flatten ?im loc = Inl TypeError" for loc
    by (rule Image_flatten_many_colors [OF v]) (unfold c, simp)
  then have "flatten (Image_init ?im None) = Inl TypeError"
    by (simp only: flatten_Image_init)
  with v c s show ?thesis by (intro conjI)
qed

end
